theory Spec2Isabelle
  imports Complex_Main
begin

section \<open>JavaScript numbers\<close>

text \<open>
  The sequencer computes with JavaScript numbers. Element extents (\<open>offsetWidth\<close>,
  \<open>offsetHeight\<close>) are non-negative integers; the frame count is their quotient
  minus one, so it may be a fraction, and a zero extent makes it \<open>Infinity\<close> or
  \<open>NaN\<close>. A number is therefore an exact rational or one of the three special
  values. Rounding of doubles and the sign of zero are not modelled.
\<close>

datatype jsnum = Num rat | PosInf | NegInf | NaN

definition js_of_nat :: "nat \<Rightarrow> jsnum" where
  "js_of_nat n = Num (of_nat n)"

fun js_neg :: "jsnum \<Rightarrow> jsnum" where
  "js_neg (Num a) = Num (- a)"
| "js_neg PosInf = NegInf"
| "js_neg NegInf = PosInf"
| "js_neg NaN = NaN"

text \<open>\<open>x + y\<close>\<close>

fun js_plus :: "jsnum \<Rightarrow> jsnum \<Rightarrow> jsnum" where
  "js_plus (Num a) (Num b) = Num (a + b)"
| "js_plus NaN y = NaN"
| "js_plus x NaN = NaN"
| "js_plus PosInf NegInf = NaN"
| "js_plus NegInf PosInf = NaN"
| "js_plus PosInf y = PosInf"
| "js_plus NegInf y = NegInf"
| "js_plus (Num a) y = y"

text \<open>\<open>x - y\<close>\<close>

definition js_minus :: "jsnum \<Rightarrow> jsnum \<Rightarrow> jsnum" where
  "js_minus x y = js_plus x (js_neg y)"

text \<open>The sign of a number that is not \<open>NaN\<close>: \<open>1\<close>, \<open>0\<close> or \<open>-1\<close>.\<close>

fun js_sign :: "jsnum \<Rightarrow> int" where
  "js_sign (Num a) = (if a = 0 then 0 else if 0 < a then 1 else - 1)"
| "js_sign PosInf = 1"
| "js_sign NegInf = - 1"
| "js_sign NaN = 0"

definition js_inf :: "int \<Rightarrow> jsnum" where
  "js_inf sg = (if sg = 0 then NaN else if 0 < sg then PosInf else NegInf)"

text \<open>\<open>x * y\<close>: an infinity times zero is \<open>NaN\<close>.\<close>

fun js_times :: "jsnum \<Rightarrow> jsnum \<Rightarrow> jsnum" where
  "js_times (Num a) (Num b) = Num (a * b)"
| "js_times NaN y = NaN"
| "js_times x NaN = NaN"
| "js_times x y = js_inf (js_sign x * js_sign y)"

text \<open>
  \<open>x / y\<close>: a finite number over zero is an infinity of its sign, zero over zero and
  an infinity over an infinity are \<open>NaN\<close>, a finite number over an infinity is zero.
\<close>

fun js_div :: "jsnum \<Rightarrow> jsnum \<Rightarrow> jsnum" where
  "js_div (Num a) (Num b) = (if b = 0 then js_inf (js_sign (Num a)) else Num (a / b))"
| "js_div NaN y = NaN"
| "js_div x NaN = NaN"
| "js_div (Num a) y = Num 0"
| "js_div x (Num b) = js_inf (js_sign x * (if b < 0 then - 1 else 1))"
| "js_div x y = NaN"

text \<open>\<open>x <= y\<close> and \<open>x >= y\<close>: every comparison with \<open>NaN\<close> is false.\<close>

fun js_le :: "jsnum \<Rightarrow> jsnum \<Rightarrow> bool" where
  "js_le (Num a) (Num b) = (a \<le> b)"
| "js_le NaN y = False"
| "js_le x NaN = False"
| "js_le NegInf y = True"
| "js_le x PosInf = True"
| "js_le x y = False"

definition js_ge :: "jsnum \<Rightarrow> jsnum \<Rightarrow> bool" where
  "js_ge x y = js_le y x"

text \<open>\<open>Number.isInteger\<close>: a finite number without a fractional part.\<close>

fun js_is_integer :: "jsnum \<Rightarrow> bool" where
  "js_is_integer (Num a) = (of_int \<lfloor>a\<rfloor> = a)"
| "js_is_integer x = False"


section \<open>The page: elements and repeating timers\<close>

text \<open>
  The value the code assigns to \<open>style.transform\<close> is one of the two strings
  \<^verbatim>\<open>translateX(-${offset}px)\<close> and \<^verbatim>\<open>translateY(-${offset}px)\<close>:
  \<open>TranslateX v\<close> stands for the first with \<open>offset = v\<close>, so the minus sign of
  the string is part of the constructor, and \<open>v\<close> is the number printed after it.
\<close>

datatype css_transform = TranslateX jsnum | TranslateY jsnum

record element =
  offsetWidth :: nat
  offsetHeight :: nat
  classList :: "string list"
  style_transform :: "css_transform option"

text \<open>\<open>classList.add\<close> and \<open>classList.remove\<close>: a class list holds a token once.\<close>

definition classList_add :: "string \<Rightarrow> element \<Rightarrow> element" where
  "classList_add c e =
     (if c \<in> set (classList e) then e else e\<lparr>classList := classList e @ [c]\<rparr>)"

definition classList_remove :: "string \<Rightarrow> element \<Rightarrow> element" where
  "classList_remove c e = e\<lparr>classList := removeAll c (classList e)\<rparr>"

text \<open>
  The host's repeating timers: \<open>setInterval\<close> returns a fresh handle and records the
  period, \<open>clearInterval\<close> forgets the handle (and ignores \<open>null\<close>).
\<close>

record host =
  next_handle :: nat
  scheduled :: "(nat \<times> jsnum) list"

definition setInterval :: "jsnum \<Rightarrow> host \<Rightarrow> nat \<times> host" where
  "setInterval period h =
     (next_handle h,
      h\<lparr>next_handle := Suc (next_handle h),
        scheduled := scheduled h @ [(next_handle h, period)]\<rparr>)"

definition clearInterval :: "nat option \<Rightarrow> host \<Rightarrow> host" where
  "clearInterval t h =
     (case t of
        None \<Rightarrow> h
      | Some i \<Rightarrow> h\<lparr>scheduled := filter (\<lambda>p. fst p \<noteq> i) (scheduled h)\<rparr>)"


section \<open>StepAnimation, the latest revision\<close>

datatype direction = Auto | Horizontal | Vertical

text \<open>The entries of \<open>CONSTANTS\<close>.\<close>

definition CSS_CLASS_ACTIVE :: string where
  "CSS_CLASS_ACTIVE = ''stepanimation--active''"

definition CSS_CLASS_HORIZONTAL :: string where
  "CSS_CLASS_HORIZONTAL = ''stepanimation--horizontal''"

definition CSS_CLASS_VERTICAL :: string where
  "CSS_CLASS_VERTICAL = ''stepanimation--vertical''"

definition CSS_CLASS_REVERSED :: string where
  "CSS_CLASS_REVERSED = ''stepanimation--reversed''"

definition DIRECTION_AUTO :: direction where
  "DIRECTION_AUTO = Auto"

definition DIRECTION_HORIZONTAL :: direction where
  "DIRECTION_HORIZONTAL = Horizontal"

definition DIRECTION_VERTICAL :: direction where
  "DIRECTION_VERTICAL = Vertical"

definition DIRECTION_DEFAULT :: direction where
  "DIRECTION_DEFAULT = Vertical"

definition INTERVAL :: jsnum where
  "INTERVAL = Num 300"

text \<open>
  Reading a property of \<open>null\<close> throws a \<open>TypeError\<close>; nothing in the class catches
  it, so it reaches the caller. It is the only error the code can raise.
\<close>

datatype error = TypeError

record frame_info =
  width :: nat
  height :: nat
  count :: jsnum

text \<open>
  The fields of an instance. \<open>graphic\<close> is the sprite-sheet element: an instance
  exists only when the constructor has returned, and then the element was found.
\<close>

record step_animation =
  container :: element
  graphic :: element
  interval :: jsnum
  direction :: direction
  reversed :: bool
  active :: bool
  timer :: "nat option"
  frameInfo :: frame_info
  frame :: jsnum

text \<open>\<open>static transform(element, value)\<close>\<close>

definition transform :: "element \<Rightarrow> css_transform \<Rightarrow> element" where
  "transform e v = e\<lparr>style_transform := Some v\<rparr>"

text \<open>
  The methods below read \<open>this\<close>; each takes the fields it reads, because the
  constructor calls them before the instance is complete.
\<close>

text \<open>\<open>_isHorizontal()\<close>\<close>

definition isHorizontal :: "direction \<Rightarrow> bool" where
  "isHorizontal d = (d = DIRECTION_HORIZONTAL)"

text \<open>\<open>_getContentDirection(spritesheet)\<close>, called with the possibly absent graphic.\<close>

definition getContentDirection :: "element option \<Rightarrow> error + direction" where
  "getContentDirection spritesheet =
     (case spritesheet of
        None \<Rightarrow> Inl TypeError
      | Some sp \<Rightarrow>
          Inr (if offsetWidth sp > offsetHeight sp then DIRECTION_HORIZONTAL
               else if offsetWidth sp < offsetHeight sp then DIRECTION_VERTICAL
               else DIRECTION_DEFAULT))"

text \<open>\<open>_getFrameCount()\<close>\<close>

definition getFrameCount :: "element \<Rightarrow> element option \<Rightarrow> direction \<Rightarrow> error + jsnum" where
  "getFrameCount cont gr d =
     (case gr of
        None \<Rightarrow> Inl TypeError
      | Some g \<Rightarrow>
          Inr (if isHorizontal d
               then js_minus (js_div (js_of_nat (offsetWidth g)) (js_of_nat (offsetWidth cont)))
                      (Num 1)
               else js_minus (js_div (js_of_nat (offsetHeight g)) (js_of_nat (offsetHeight cont)))
                      (Num 1)))"

text \<open>\<open>_initialFrame()\<close>\<close>

definition initialFrame :: "bool \<Rightarrow> frame_info \<Rightarrow> jsnum" where
  "initialFrame rv fi = (if rv then count fi else Num 0)"

text \<open>\<open>_frameInRange(frame)\<close>\<close>

definition frameInRange :: "frame_info \<Rightarrow> jsnum \<Rightarrow> bool" where
  "frameInRange fi f = (js_ge f (Num 0) \<and> js_le f (count fi))"

text \<open>
  The constructor. \<open>gr\<close> is what \<open>container.querySelector\<close> returns for the graphic's
  class: the element, or \<open>None\<close> for \<open>null\<close>. An omitted optional argument is
  \<open>None\<close> and takes its default. When the constructor throws, the result is the
  error alone. \<open>getFrameCount\<close> has failed already when the graphic is absent; the
  case on \<open>gr\<close> after it only names the element.
\<close>

definition constructor ::
  "element \<Rightarrow> element option \<Rightarrow> jsnum option \<Rightarrow> direction option \<Rightarrow> bool option
     \<Rightarrow> error + step_animation" where
  "constructor cont gr opt_interval opt_direction opt_reverse =
     (let iv = (case opt_interval of None \<Rightarrow> INTERVAL | Some i \<Rightarrow> i);
          d0 = (case opt_direction of None \<Rightarrow> DIRECTION_AUTO | Some d \<Rightarrow> d);
          rv = (case opt_reverse of None \<Rightarrow> False | Some r \<Rightarrow> r)
      in case (if d0 = DIRECTION_AUTO then getContentDirection gr else Inr d0) of
           Inl e \<Rightarrow> Inl e
         | Inr d \<Rightarrow>
             (let c1 = (if rv then classList_add CSS_CLASS_REVERSED cont else cont);
                  c2 = (if isHorizontal d then classList_add CSS_CLASS_HORIZONTAL c1
                        else classList_add CSS_CLASS_VERTICAL c1)
              in case getFrameCount c2 gr d of
                   Inl e \<Rightarrow> Inl e
                 | Inr n \<Rightarrow>
                     (case gr of
                        None \<Rightarrow> Inl TypeError
                      | Some g \<Rightarrow>
                          (let fi = \<lparr>width = offsetWidth c2, height = offsetHeight c2,
                                      count = n\<rparr>
                           in Inr \<lparr>container = c2, graphic = g, interval = iv,
                                   direction = d, reversed = rv, active = False,
                                   timer = None, frameInfo = fi,
                                   frame = initialFrame rv fi\<rparr>))))"

text \<open>\<open>_calculateNextTransform()\<close>\<close>

definition calculateNextTransform :: "step_animation \<Rightarrow> step_animation" where
  "calculateNextTransform s =
     (let s1 = (if \<not> frameInRange (frameInfo s) (frame s)
                then s\<lparr>frame := initialFrame (reversed s) (frameInfo s)\<rparr> else s);
          offset = js_times (frame s1) (js_of_nat (height (frameInfo s1)));
          tr = (if isHorizontal (direction s1) then TranslateX offset else TranslateY offset)
      in s1\<lparr>graphic := transform (graphic s1) tr\<rparr>)"

text \<open>\<open>previous()\<close> and \<open>next()\<close>\<close>

definition previous :: "step_animation \<Rightarrow> step_animation" where
  "previous s = calculateNextTransform (s\<lparr>frame := js_minus (frame s) (Num 1)\<rparr>)"

definition nextStep :: "step_animation \<Rightarrow> step_animation" where
  "nextStep s = calculateNextTransform (s\<lparr>frame := js_plus (frame s) (Num 1)\<rparr>)"

text \<open>\<open>_nextOrPrevious()\<close>, the timer's callback\<close>

definition nextOrPrevious :: "step_animation \<Rightarrow> step_animation" where
  "nextOrPrevious s = (if reversed s then previous s else nextStep s)"

text \<open>\<open>start(opt_frame)\<close> and \<open>stop()\<close>, on the host's timers and the instance\<close>

definition start :: "jsnum option \<Rightarrow> host \<times> step_animation \<Rightarrow> host \<times> step_animation" where
  "start opt_frame hs =
     (let h = fst hs; s = snd hs
      in if active s then hs
         else (let th = setInterval (interval s) h
               in (snd th,
                   s\<lparr>timer := Some (fst th),
                     container := classList_add CSS_CLASS_ACTIVE (container s),
                     active := True\<rparr>)))"

definition stop :: "host \<times> step_animation \<Rightarrow> host \<times> step_animation" where
  "stop hs =
     (let h = fst hs; s = snd hs
      in if \<not> active s then hs
         else (clearInterval (timer s) h,
               s\<lparr>container := classList_remove CSS_CLASS_ACTIVE (container s),
                 active := False\<rparr>))"

text \<open>\<open>set interval(interval)\<close>\<close>

definition set_interval :: "jsnum \<Rightarrow> host \<times> step_animation \<Rightarrow> host \<times> step_animation" where
  "set_interval v hs =
     (let hs1 = stop hs;
          hs2 = (fst hs1, (snd hs1)\<lparr>interval := v\<rparr>)
      in start None hs2)"

text \<open>
  What can happen to an instance after construction: a call of one of the four public
  methods, or the host firing the timer's callback, which it does only while the
  instance's handle is scheduled.
\<close>

datatype call = Start "jsnum option" | Stop | Previous | Next | Tick

fun perform :: "call \<Rightarrow> host \<times> step_animation \<Rightarrow> host \<times> step_animation" where
  "perform (Start f) hs = start f hs"
| "perform Stop hs = stop hs"
| "perform Previous hs = (fst hs, previous (snd hs))"
| "perform Next hs = (fst hs, nextStep (snd hs))"
| "perform Tick hs =
     (case timer (snd hs) of
        None \<Rightarrow> hs
      | Some t \<Rightarrow>
          if t \<in> fst ` set (scheduled (fst hs)) then (fst hs, nextOrPrevious (snd hs))
          else hs)"

fun run :: "call list \<Rightarrow> host \<times> step_animation \<Rightarrow> host \<times> step_animation" where
  "run [] hs = hs"
| "run (c # cs) hs = run cs (perform c hs)"


section \<open>SpriteSequence, the two earlier revisions\<close>

text \<open>
  Both earlier revisions are classes named \<open>SpriteSequence\<close> with the fields of
  \<open>StepAnimation\<close>; the definitions of the second revision end in \<open>_v2\<close>, those of
  the first in \<open>_v1\<close>. The second revision differs from \<open>StepAnimation\<close> in its class
  names and in how it infers the direction; its other methods are the same text.
\<close>

definition CLASS_NAME_HORIZONTAL :: string where
  "CLASS_NAME_HORIZONTAL = ''spritesequencer--horizontal''"

definition CLASS_NAME_VERTICAL :: string where
  "CLASS_NAME_VERTICAL = ''spritesequencer--vertical''"

definition CLASS_NAME_REVERSED :: string where
  "CLASS_NAME_REVERSED = ''spritesequencer--reversed''"

text \<open>
  \<open>_calculateDirection()\<close> of the second revision, reading \<open>this.elements.graphic\<close>.
  The default it first assigns to \<open>direction\<close> is overwritten on both branches.
\<close>

definition calculateDirection_v2 :: "element option \<Rightarrow> error + direction" where
  "calculateDirection_v2 gr =
     (case gr of
        None \<Rightarrow> Inl TypeError
      | Some g \<Rightarrow>
          Inr (if offsetWidth g > offsetHeight g then DIRECTION_HORIZONTAL
               else DIRECTION_VERTICAL))"

definition constructor_v2 ::
  "element \<Rightarrow> element option \<Rightarrow> jsnum option \<Rightarrow> direction option \<Rightarrow> bool option
     \<Rightarrow> error + step_animation" where
  "constructor_v2 cont gr opt_interval opt_direction opt_reverse =
     (let iv = (case opt_interval of None \<Rightarrow> Num 300 | Some i \<Rightarrow> i);
          d0 = (case opt_direction of None \<Rightarrow> Auto | Some d \<Rightarrow> d);
          rv = (case opt_reverse of None \<Rightarrow> False | Some r \<Rightarrow> r)
      in case (if d0 = DIRECTION_AUTO then calculateDirection_v2 gr else Inr d0) of
           Inl e \<Rightarrow> Inl e
         | Inr d \<Rightarrow>
             (let c1 = (if rv then classList_add CLASS_NAME_REVERSED cont else cont);
                  c2 = (if isHorizontal d then classList_add CLASS_NAME_HORIZONTAL c1
                        else classList_add CLASS_NAME_VERTICAL c1)
              in case getFrameCount c2 gr d of
                   Inl e \<Rightarrow> Inl e
                 | Inr n \<Rightarrow>
                     (case gr of
                        None \<Rightarrow> Inl TypeError
                      | Some g \<Rightarrow>
                          (let fi = \<lparr>width = offsetWidth c2, height = offsetHeight c2,
                                      count = n\<rparr>
                           in Inr \<lparr>container = c2, graphic = g, interval = iv,
                                   direction = d, reversed = rv, active = False,
                                   timer = None, frameInfo = fi,
                                   frame = initialFrame rv fi\<rparr>))))"

text \<open>
  \<open>_calculateDirection()\<close> of the first revision. Its comment reads "Set our animation
  direction to horizontal if the width of the graphic element is larger than its
  height"; the branch assigns \<open>DIRECTION_VERTICAL\<close>.
\<close>

definition calculateDirection_v1 :: "element option \<Rightarrow> error + direction" where
  "calculateDirection_v1 gr =
     (case gr of
        None \<Rightarrow> Inl TypeError
      | Some g \<Rightarrow>
          Inr (if offsetWidth g > offsetHeight g then DIRECTION_VERTICAL
               else DIRECTION_HORIZONTAL))"

text \<open>
  The constructor of the first revision: it adds no class, starts at frame \<open>0\<close> and
  counts the frames along the width whatever the direction.
\<close>

definition constructor_v1 ::
  "element \<Rightarrow> element option \<Rightarrow> jsnum option \<Rightarrow> direction option \<Rightarrow> bool option
     \<Rightarrow> error + step_animation" where
  "constructor_v1 cont gr opt_interval opt_direction opt_reverse =
     (let iv = (case opt_interval of None \<Rightarrow> Num 300 | Some i \<Rightarrow> i);
          d0 = (case opt_direction of None \<Rightarrow> Auto | Some d \<Rightarrow> d);
          rv = (case opt_reverse of None \<Rightarrow> False | Some r \<Rightarrow> r)
      in case (if d0 = DIRECTION_AUTO then calculateDirection_v1 gr else Inr d0) of
           Inl e \<Rightarrow> Inl e
         | Inr d \<Rightarrow>
             (case gr of
                None \<Rightarrow> Inl TypeError
              | Some g \<Rightarrow>
                  Inr \<lparr>container = cont, graphic = g, interval = iv, direction = d,
                       reversed = rv, active = False, timer = None,
                       frameInfo =
                         \<lparr>width = offsetWidth cont, height = offsetHeight cont,
                          count = js_minus (js_div (js_of_nat (offsetWidth g))
                                              (js_of_nat (offsetWidth cont))) (Num 1)\<rparr>,
                       frame = Num 0\<rparr>))"


section \<open>Concrete pages\<close>

text \<open>
  A container of 100 by 100 with a sprite-sheet of 500 by 100, and the instances the
  constructor builds from them with the defaults and with the reverse flag set.
\<close>

definition scenario_container :: element where
  "scenario_container =
     \<lparr>offsetWidth = 100, offsetHeight = 100, classList = [], style_transform = None\<rparr>"

definition scenario_sheet :: element where
  "scenario_sheet =
     \<lparr>offsetWidth = 500, offsetHeight = 100, classList = [], style_transform = None\<rparr>"

definition scenario_instance :: step_animation where
  "scenario_instance =
     \<lparr>container = \<lparr>offsetWidth = 100, offsetHeight = 100,
                    classList = [''stepanimation--horizontal''], style_transform = None\<rparr>,
      graphic = scenario_sheet, interval = Num 300, direction = Horizontal,
      reversed = False, active = False, timer = None,
      frameInfo = \<lparr>width = 100, height = 100, count = Num 4\<rparr>, frame = Num 0\<rparr>"

definition scenario_reversed :: step_animation where
  "scenario_reversed =
     \<lparr>container = \<lparr>offsetWidth = 100, offsetHeight = 100,
                    classList = [''stepanimation--reversed'', ''stepanimation--horizontal''],
                    style_transform = None\<rparr>,
      graphic = scenario_sheet, interval = Num 300, direction = Horizontal,
      reversed = True, active = False, timer = None,
      frameInfo = \<lparr>width = 100, height = 100, count = Num 4\<rparr>, frame = Num 4\<rparr>"

text \<open>A container that is not square: 100 wide, 50 high, with a sheet of five frames.\<close>

definition wide_container :: element where
  "wide_container =
     \<lparr>offsetWidth = 100, offsetHeight = 50, classList = [], style_transform = None\<rparr>"

definition wide_sheet :: element where
  "wide_sheet =
     \<lparr>offsetWidth = 500, offsetHeight = 50, classList = [], style_transform = None\<rparr>"

text \<open>A sheet smaller than the container, and one of two frames and a half.\<close>

definition short_sheet :: element where
  "short_sheet =
     \<lparr>offsetWidth = 25, offsetHeight = 50, classList = [], style_transform = None\<rparr>"

definition ragged_sheet :: element where
  "ragged_sheet =
     \<lparr>offsetWidth = 250, offsetHeight = 100, classList = [], style_transform = None\<rparr>"

definition ragged_instance :: step_animation where
  "ragged_instance =
     \<lparr>container = \<lparr>offsetWidth = 100, offsetHeight = 100,
                    classList = [''stepanimation--horizontal''], style_transform = None\<rparr>,
      graphic = ragged_sheet, interval = Num 300, direction = Horizontal,
      reversed = False, active = False, timer = None,
      frameInfo = \<lparr>width = 100, height = 100, count = Num (3 / 2)\<rparr>, frame = Num 0\<rparr>"

definition idle_host :: host where
  "idle_host = \<lparr>next_handle = 1, scheduled = []\<rparr>"


section \<open>Facts about the arithmetic\<close>

lemma js_quot_minus_one:
  "c \<noteq> 0 \<Longrightarrow>
   js_minus (js_div (js_of_nat a) (js_of_nat c)) (Num 1) = Num (of_nat a / of_nat c - 1)"
  by (simp add: js_minus_def js_of_nat_def)

lemma js_quot_zero_minus_one:
  "a \<noteq> 0 \<Longrightarrow> js_minus (js_div (js_of_nat a) (js_of_nat 0)) (Num 1) = PosInf"
  by (simp add: js_minus_def js_of_nat_def js_inf_def)

lemma quotient_integer_dvd:
  assumes "c \<noteq> 0" and "rat_of_int k = rat_of_nat a / rat_of_nat c"
  shows "c dvd a"
proof -
  from assms have "rat_of_int (int a) = rat_of_int (k * int c)"
    by (simp add: field_simps)
  then have "int a = k * int c"
    by (simp only: of_int_eq_iff)
  then have "int c dvd int a"
    by simp
  then show ?thesis
    by (simp only: int_dvd_int_iff)
qed

lemma quotient_not_integer:
  assumes "\<not> c dvd a"
  shows "\<not> js_is_integer (js_minus (js_div (js_of_nat a) (js_of_nat c)) (Num 1))"
proof (cases "c = 0")
  case True
  with assms have "a \<noteq> 0" by auto
  with True show ?thesis by (simp add: js_quot_zero_minus_one)
next
  case False
  show ?thesis
  proof
    assume "js_is_integer (js_minus (js_div (js_of_nat a) (js_of_nat c)) (Num 1))"
    with False
    have "rat_of_int \<lfloor>rat_of_nat a / rat_of_nat c - 1\<rfloor> = rat_of_nat a / rat_of_nat c - 1"
      by (simp add: js_quot_minus_one)
    then have "rat_of_int (\<lfloor>rat_of_nat a / rat_of_nat c - 1\<rfloor> + 1) = rat_of_nat a / rat_of_nat c"
      by simp
    with False have "c dvd a" by (rule quotient_integer_dvd)
    with assms show False by simp
  qed
qed

lemma quotient_nonneg:
  assumes "c \<noteq> 0" and "c \<le> a"
  shows "js_ge (js_minus (js_div (js_of_nat a) (js_of_nat c)) (Num 1)) (Num 0)"
proof -
  from assms have "1 \<le> rat_of_nat a / rat_of_nat c"
    by (simp add: le_divide_eq)
  with assms(1) show ?thesis
    by (simp add: js_quot_minus_one js_ge_def)
qed

lemma floor_three_halves: "\<lfloor>3 / 2 :: rat\<rfloor> = 1"
  by (rule floor_unique) simp_all

lemma floor_five_halves: "\<lfloor>5 / 2 :: rat\<rfloor> = 2"
  by (rule floor_unique) simp_all


section \<open>Facts about construction\<close>

lemma constructor_graphic:
  "constructor cont gr oi od orv = Inr s \<Longrightarrow> gr = Some (graphic s)"
  by (auto simp: constructor_def Let_def split: sum.splits option.splits if_splits)

lemma constructor_reversed:
  "constructor cont gr oi od orv = Inr s \<Longrightarrow> reversed s = (orv = Some True)"
  by (auto simp: constructor_def Let_def split: sum.splits option.splits if_splits)

lemma constructor_frame:
  "constructor cont gr oi od orv = Inr s \<Longrightarrow> frame s = initialFrame (reversed s) (frameInfo s)"
  by (auto simp: constructor_def Let_def split: sum.splits option.splits if_splits)

lemma constructor_count:
  "constructor cont (Some g) oi od orv = Inr s \<Longrightarrow>
   count (frameInfo s) =
     (if isHorizontal (direction s)
      then js_minus (js_div (js_of_nat (offsetWidth g)) (js_of_nat (offsetWidth cont))) (Num 1)
      else js_minus (js_div (js_of_nat (offsetHeight g)) (js_of_nat (offsetHeight cont))) (Num 1))"
  by (auto simp: constructor_def getFrameCount_def classList_add_def Let_def
           split: sum.splits option.splits if_splits)

lemma constructor_frame_extent:
  "constructor cont gr oi od orv = Inr s \<Longrightarrow>
   width (frameInfo s) = offsetWidth cont \<and> height (frameInfo s) = offsetHeight cont"
  by (auto simp: constructor_def classList_add_def Let_def
           split: sum.splits option.splits if_splits)

text \<open>
  Direction inference in the latest revision: wider is horizontal, taller is vertical,
  square is the default, vertical.
\<close>

lemma constructor_direction_auto:
  "constructor cont (Some g) oi od orv = Inr s \<Longrightarrow> od = None \<or> od = Some Auto \<Longrightarrow>
   direction s =
     (if offsetHeight g < offsetWidth g then Horizontal
      else if offsetWidth g < offsetHeight g then Vertical else Vertical)"
  by (auto simp: constructor_def getContentDirection_def DIRECTION_AUTO_def
        DIRECTION_HORIZONTAL_def DIRECTION_VERTICAL_def DIRECTION_DEFAULT_def Let_def
           split: sum.splits option.splits if_splits)

lemma scenario_constructed:
  "constructor scenario_container (Some scenario_sheet) None None None = Inr scenario_instance"
  by (simp add: constructor_def getContentDirection_def getFrameCount_def isHorizontal_def
        initialFrame_def classList_add_def DIRECTION_AUTO_def DIRECTION_HORIZONTAL_def
        INTERVAL_def js_of_nat_def js_minus_def CSS_CLASS_HORIZONTAL_def
        scenario_container_def scenario_sheet_def scenario_instance_def Let_def)

lemma scenario_reversed_constructed:
  "constructor scenario_container (Some scenario_sheet) None None (Some True) =
     Inr scenario_reversed"
  by (simp add: constructor_def getContentDirection_def getFrameCount_def isHorizontal_def
        initialFrame_def classList_add_def DIRECTION_AUTO_def DIRECTION_HORIZONTAL_def
        INTERVAL_def js_of_nat_def js_minus_def CSS_CLASS_HORIZONTAL_def CSS_CLASS_REVERSED_def
        scenario_container_def scenario_sheet_def scenario_reversed_def Let_def)

lemma ragged_constructed:
  "constructor scenario_container (Some ragged_sheet) None None None = Inr ragged_instance"
  by (simp add: constructor_def getContentDirection_def getFrameCount_def isHorizontal_def
        initialFrame_def classList_add_def DIRECTION_AUTO_def DIRECTION_HORIZONTAL_def
        INTERVAL_def js_of_nat_def js_minus_def CSS_CLASS_HORIZONTAL_def
        scenario_container_def ragged_sheet_def ragged_instance_def Let_def)


section \<open>Facts about stepping\<close>

lemma calculateNextTransform_frame:
  "frame (calculateNextTransform s) =
     (if frameInRange (frameInfo s) (frame s) then frame s
      else initialFrame (reversed s) (frameInfo s))"
  by (simp add: calculateNextTransform_def Let_def)

lemma calculateNextTransform_keeps:
  "frameInfo (calculateNextTransform s) = frameInfo s"
  "reversed (calculateNextTransform s) = reversed s"
  "direction (calculateNextTransform s) = direction s"
  by (simp_all add: calculateNextTransform_def Let_def)

text \<open>
  What the step writes to the sheet: the frame reached times the frame's height, on the
  horizontal axis when the direction is horizontal and on the vertical axis otherwise.
\<close>

lemma calculateNextTransform_style:
  "style_transform (graphic (calculateNextTransform s)) =
     Some ((if isHorizontal (direction s) then TranslateX else TranslateY)
             (js_times (frame (calculateNextTransform s))
                (js_of_nat (height (frameInfo s)))))"
  by (simp add: calculateNextTransform_def transform_def Let_def)

lemma nextStep_frame:
  "frame (nextStep s) =
     (if frameInRange (frameInfo s) (js_plus (frame s) (Num 1)) then js_plus (frame s) (Num 1)
      else initialFrame (reversed s) (frameInfo s))"
  by (simp add: nextStep_def calculateNextTransform_frame calculateNextTransform_keeps)

lemma previous_frame:
  "frame (previous s) =
     (if frameInRange (frameInfo s) (js_minus (frame s) (Num 1)) then js_minus (frame s) (Num 1)
      else initialFrame (reversed s) (frameInfo s))"
  by (simp add: previous_def calculateNextTransform_frame calculateNextTransform_keeps)

lemma step_keeps:
  "frameInfo (nextStep s) = frameInfo s" "reversed (nextStep s) = reversed s"
  "frameInfo (previous s) = frameInfo s" "reversed (previous s) = reversed s"
  by (simp_all add: nextStep_def previous_def calculateNextTransform_keeps)

lemma initialFrame_in_range:
  "js_ge (count fi) (Num 0) \<Longrightarrow> frameInRange fi (initialFrame rv fi)"
  by (cases "count fi") (simp_all add: frameInRange_def initialFrame_def js_ge_def)

lemma step_in_range:
  assumes "js_ge (count (frameInfo s)) (Num 0)"
  shows "frameInRange (frameInfo s) (frame (nextStep s))"
    and "frameInRange (frameInfo s) (frame (previous s))"
  using assms by (simp_all add: nextStep_frame previous_frame initialFrame_in_range)

lemma start_keeps:
  "frame (snd (start f hs)) = frame (snd hs)"
  "frameInfo (snd (start f hs)) = frameInfo (snd hs)"
  "reversed (snd (start f hs)) = reversed (snd hs)"
  by (simp_all add: start_def Let_def)

lemma stop_keeps:
  "frame (snd (stop hs)) = frame (snd hs)"
  "frameInfo (snd (stop hs)) = frameInfo (snd hs)"
  "reversed (snd (stop hs)) = reversed (snd hs)"
  by (simp_all add: stop_def Let_def)

lemma perform_frameInfo: "frameInfo (snd (perform c hs)) = frameInfo (snd hs)"
  by (cases c) (simp_all add: start_keeps stop_keeps step_keeps nextOrPrevious_def
                  split: option.splits)

lemma perform_in_range:
  assumes "js_ge (count (frameInfo (snd hs))) (Num 0)"
    and "frameInRange (frameInfo (snd hs)) (frame (snd hs))"
  shows "frameInRange (frameInfo (snd hs)) (frame (snd (perform c hs)))"
  using assms
  by (cases c) (simp_all add: start_keeps stop_keeps step_in_range nextOrPrevious_def
                  split: option.splits)

text \<open>The wrap invariant, for any state whose count is not below zero.\<close>

lemma run_in_range:
  assumes "js_ge (count (frameInfo (snd hs))) (Num 0)"
    and "frameInRange (frameInfo (snd hs)) (frame (snd hs))"
  shows "frameInfo (snd (run cs hs)) = frameInfo (snd hs) \<and>
         frameInRange (frameInfo (snd hs)) (frame (snd (run cs hs)))"
  using assms
proof (induction cs arbitrary: hs)
  case Nil
  then show ?case by simp
next
  case (Cons c cs)
  have fi: "frameInfo (snd (perform c hs)) = frameInfo (snd hs)"
    by (rule perform_frameInfo)
  have "frameInRange (frameInfo (snd hs)) (frame (snd (perform c hs)))"
    using Cons.prems by (rule perform_in_range)
  with Cons.IH [of "perform c hs"] Cons.prems(1) fi show ?case
    by simp
qed

text \<open>Counting up from frame \<open>0\<close>, and down from the last frame, without leaving the range.\<close>

lemma forward_run:
  assumes "count (frameInfo s) = js_of_nat n" and "\<not> reversed s" and "frame s = Num 0"
  shows "j \<le> n \<Longrightarrow>
         frame ((nextStep ^^ j) s) = js_of_nat j \<and>
         frameInfo ((nextStep ^^ j) s) = frameInfo s \<and>
         reversed ((nextStep ^^ j) s) = reversed s"
proof (induction j)
  case 0
  with assms show ?case by (simp add: js_of_nat_def)
next
  case (Suc j)
  then have "j \<le> n" and "Suc j \<le> n" by simp_all
  with Suc.IH assms(1) show ?case
    by (simp add: nextStep_frame step_keeps frameInRange_def js_ge_def js_of_nat_def)
qed

lemma backward_run:
  assumes "count (frameInfo s) = js_of_nat n" and "reversed s"
    and "frame s = count (frameInfo s)"
  shows "j \<le> n \<Longrightarrow>
         frame ((previous ^^ j) s) = js_of_nat (n - j) \<and>
         frameInfo ((previous ^^ j) s) = frameInfo s \<and>
         reversed ((previous ^^ j) s) = reversed s"
proof (induction j)
  case 0
  with assms show ?case by simp
next
  case (Suc j)
  then have "j \<le> n" and "Suc j \<le> n" by simp_all
  with Suc.IH assms(1) show ?case
    by (simp add: previous_frame step_keeps frameInRange_def js_ge_def js_of_nat_def
          js_minus_def of_nat_diff)
qed

section \<open>The earlier revisions\<close>

lemma constructor_v2_direction_auto:
  "constructor_v2 cont (Some g) oi od orv = Inr s \<Longrightarrow> od = None \<or> od = Some Auto \<Longrightarrow>
   direction s =
     (if offsetHeight g < offsetWidth g then Horizontal
      else if offsetWidth g < offsetHeight g then Vertical else Vertical)"
  by (auto simp: constructor_v2_def calculateDirection_v2_def DIRECTION_AUTO_def
        DIRECTION_HORIZONTAL_def DIRECTION_VERTICAL_def Let_def
           split: sum.splits option.splits if_splits)

lemma constructor_v2_absent_graphic: "constructor_v2 cont None oi od orv = Inl TypeError"
  by (simp add: constructor_v2_def calculateDirection_v2_def getFrameCount_def Let_def
           split: sum.splits option.splits)

lemma constructor_v1_absent_graphic: "constructor_v1 cont None oi od orv = Inl TypeError"
  by (simp add: constructor_v1_def calculateDirection_v1_def Let_def
           split: sum.splits option.splits)

lemma constructor_v2_frame:
  "constructor_v2 cont gr oi od orv = Inr s \<Longrightarrow>
   frame s = (if orv = Some True then count (frameInfo s) else Num 0)"
  by (auto simp: constructor_v2_def initialFrame_def Let_def
           split: sum.splits option.splits if_splits)

text \<open>The first revision starts at frame \<open>0\<close> also when reversed.\<close>

lemma constructor_v1_frame:
  "constructor_v1 cont gr oi od orv = Inr s \<Longrightarrow> frame s = Num 0"
  by (auto simp: constructor_v1_def Let_def split: sum.splits option.splits if_splits)

lemma calculateDirection_v1_Some:
  "calculateDirection_v1 (Some g) =
     Inr (if offsetHeight g < offsetWidth g then Vertical else Horizontal)"
  by (simp add: calculateDirection_v1_def DIRECTION_HORIZONTAL_def DIRECTION_VERTICAL_def)


section \<open>The claims\<close>

text \<open>
  Claim C1: on every step the offset applied to the sprite-sheet is the current frame
  times the frame's extent along the resolved axis (the frame's width when the direction
  is horizontal), negated, along that axis. On a container 100 wide and 50 high with a
  horizontal sheet, one step forward reaches frame 1 and the code writes
  \<^verbatim>\<open>translateX(-50px)\<close>: the frame's height, where the frame's width is 100.
\<close>

theorem offset_uses_frame_height:
  "map_sum id
     (\<lambda>s. (direction s, width (frameInfo s), height (frameInfo s), frame (nextStep s),
           style_transform (graphic (nextStep s))))
     (constructor wide_container (Some wide_sheet) None None None) =
   Inr (Horizontal, 100, 50, Num 1, Some (TranslateX (Num 50)))"
  by (simp add: constructor_def getContentDirection_def getFrameCount_def isHorizontal_def
        initialFrame_def classList_add_def DIRECTION_AUTO_def DIRECTION_HORIZONTAL_def
        INTERVAL_def js_of_nat_def js_minus_def js_ge_def nextStep_def
        calculateNextTransform_def frameInRange_def transform_def
        wide_container_def wide_sheet_def Let_def)

text \<open>
  Claim C2: after construction from non-zero extents with a count that is not below
  zero, and after any finite sequence of start, stop, previous and next calls and timer
  ticks, the current frame lies between \<open>0\<close> and \<open>frameInfo.count\<close>, both included.
\<close>

theorem frame_stays_in_range:
  assumes "constructor cont (Some g) oi od orv = Inr s"
    and "offsetWidth cont \<noteq> 0" and "offsetHeight cont \<noteq> 0"
    and "offsetWidth g \<noteq> 0" and "offsetHeight g \<noteq> 0"
    and "js_ge (count (frameInfo s)) (Num 0)"
  shows "js_ge (frame (snd (run cs (h, s)))) (Num 0) \<and>
         js_le (frame (snd (run cs (h, s)))) (count (frameInfo (snd (run cs (h, s)))))"
proof -
  have "frameInRange (frameInfo s) (frame s)"
    using assms(6) by (simp add: constructor_frame [OF assms(1)] initialFrame_in_range)
  with assms(6) run_in_range [of "(h, s)" cs] show ?thesis
    by (simp add: frameInRange_def)
qed

text \<open>Claim C2 on the 500 by 100 sheet, with the timer running for part of the calls.\<close>

theorem frame_stays_in_range_witness:
  "constructor scenario_container (Some scenario_sheet) None None None = Inr scenario_instance \<and>
   offsetWidth scenario_container \<noteq> 0 \<and> offsetHeight scenario_container \<noteq> 0 \<and>
   offsetWidth scenario_sheet \<noteq> 0 \<and> offsetHeight scenario_sheet \<noteq> 0 \<and>
   js_ge (count (frameInfo scenario_instance)) (Num 0) \<and>
   js_ge (frame (snd (run [Start None, Tick, Previous, Previous, Stop, Next]
                        (idle_host, scenario_instance)))) (Num 0) \<and>
   js_le (frame (snd (run [Start None, Tick, Previous, Previous, Stop, Next]
                        (idle_host, scenario_instance))))
     (count (frameInfo (snd (run [Start None, Tick, Previous, Previous, Stop, Next]
                               (idle_host, scenario_instance)))))"
  using frame_stays_in_range [OF scenario_constructed,
      of "[Start None, Tick, Previous, Previous, Stop, Next]" idle_host]
    scenario_constructed
  by (simp add: scenario_container_def scenario_sheet_def scenario_instance_def js_ge_def)

text \<open>
  Claim C3: when the sprite-sheet child is absent, construction does not complete: it
  fails with the error the runtime raises for reading a property of \<open>null\<close>, which
  nothing catches, so the caller receives it.
\<close>

theorem constructor_absent_graphic_fails:
  "constructor cont None opt_interval opt_direction opt_reverse = Inl TypeError"
  by (simp add: constructor_def getContentDirection_def getFrameCount_def Let_def
           split: sum.splits option.splits)

text \<open>
  Claim C4: with direction Auto a sheet wider than tall resolves to Horizontal, a taller
  one to Vertical, a square one to Vertical. The first revision does the opposite: the
  500 by 100 sheet resolves to Vertical there, and a square or taller sheet to
  Horizontal.
\<close>

theorem calculateDirection_v1_inverted:
  "map_sum id direction
     (constructor_v1 scenario_container (Some scenario_sheet) None None None) = Inr Vertical \<and>
   calculateDirection_v1 (Some scenario_sheet) = Inr Vertical \<and>
   calculateDirection_v1 (Some scenario_container) = Inr Horizontal \<and>
   calculateDirection_v1 (Some short_sheet) = Inr Horizontal"
  by (simp add: constructor_v1_def calculateDirection_v1_def DIRECTION_AUTO_def
        DIRECTION_HORIZONTAL_def DIRECTION_VERTICAL_def scenario_container_def
        scenario_sheet_def short_sheet_def Let_def)

text \<open>
  Claim C5: when the count is a whole number \<open>n\<close>, a forward instance at frame \<open>0\<close> is
  back at frame \<open>0\<close> after \<open>n + 1\<close> forward steps, and a reversed instance at frame
  \<open>n\<close> is back at frame \<open>n\<close> after \<open>n + 1\<close> backward steps.
\<close>

theorem stepping_is_cyclic:
  assumes "count (frameInfo s) = js_of_nat n"
  shows "(\<not> reversed s \<and> frame s = Num 0 \<longrightarrow> frame ((nextStep ^^ Suc n) s) = Num 0) \<and>
         (reversed s \<and> frame s = count (frameInfo s) \<longrightarrow>
            frame ((previous ^^ Suc n) s) = count (frameInfo s))"
proof (intro conjI impI)
  assume "\<not> reversed s \<and> frame s = Num 0"
  with assms forward_run [of s n n] show "frame ((nextStep ^^ Suc n) s) = Num 0"
    by (simp add: nextStep_frame frameInRange_def js_ge_def js_of_nat_def initialFrame_def)
next
  assume "reversed s \<and> frame s = count (frameInfo s)"
  with assms backward_run [of s n n]
  show "frame ((previous ^^ Suc n) s) = count (frameInfo s)"
    by (simp add: previous_frame frameInRange_def js_ge_def js_of_nat_def js_minus_def
          initialFrame_def)
qed

text \<open>Claim C5 on the sheet of five frames: five steps forward, and five backward.\<close>

theorem stepping_is_cyclic_witness:
  "count (frameInfo scenario_instance) = js_of_nat 4 \<and>
   \<not> reversed scenario_instance \<and> frame scenario_instance = Num 0 \<and>
   frame ((nextStep ^^ Suc 4) scenario_instance) = Num 0 \<and>
   count (frameInfo scenario_reversed) = js_of_nat 4 \<and>
   reversed scenario_reversed \<and> frame scenario_reversed = count (frameInfo scenario_reversed) \<and>
   frame ((previous ^^ Suc 4) scenario_reversed) = Num 4"
  using stepping_is_cyclic [of scenario_instance 4] stepping_is_cyclic [of scenario_reversed 4]
  by (simp add: scenario_instance_def scenario_reversed_def js_of_nat_def)

text \<open>
  Claim C6, as stated: every construction from non-zero extents has a count that is not
  below zero. It fails for a sheet smaller than the container: 50 high in a container
  100 high gives the count \<open>-1/2\<close>.
\<close>

theorem count_negative_counterexample:
  "offsetWidth scenario_container \<noteq> 0 \<and> offsetHeight scenario_container \<noteq> 0 \<and>
   offsetWidth short_sheet \<noteq> 0 \<and> offsetHeight short_sheet \<noteq> 0 \<and>
   map_sum id (count \<circ> frameInfo)
     (constructor scenario_container (Some short_sheet) None None None) = Inr (Num (- (1 / 2))) \<and>
   \<not> js_ge (Num (- (1 / 2))) (Num 0)"
  by (simp add: constructor_def getContentDirection_def getFrameCount_def isHorizontal_def
        initialFrame_def classList_add_def DIRECTION_AUTO_def DIRECTION_HORIZONTAL_def
        DIRECTION_VERTICAL_def INTERVAL_def js_of_nat_def js_minus_def js_ge_def
        scenario_container_def short_sheet_def Let_def)

text \<open>
  Claim C6, amended: every construction from non-zero extents in which the sheet's extent
  along the resolved axis is at least the container's has a count that is not below zero.
\<close>

theorem count_nonnegative:
  assumes "constructor cont (Some g) oi od orv = Inr s"
    and "offsetWidth cont \<noteq> 0" and "offsetHeight cont \<noteq> 0"
    and "offsetWidth g \<noteq> 0" and "offsetHeight g \<noteq> 0"
    and "if isHorizontal (direction s) then offsetWidth cont \<le> offsetWidth g
         else offsetHeight cont \<le> offsetHeight g"
  shows "js_ge (count (frameInfo s)) (Num 0)"
  using assms by (simp add: constructor_count quotient_nonneg split: if_splits)

text \<open>Claim C6, amended, on the 500 by 100 sheet: the count is 4.\<close>

theorem count_nonnegative_witness:
  "constructor scenario_container (Some scenario_sheet) None None None = Inr scenario_instance \<and>
   offsetWidth scenario_container \<noteq> 0 \<and> offsetHeight scenario_container \<noteq> 0 \<and>
   offsetWidth scenario_sheet \<noteq> 0 \<and> offsetHeight scenario_sheet \<noteq> 0 \<and>
   isHorizontal (direction scenario_instance) \<and>
   offsetWidth scenario_container \<le> offsetWidth scenario_sheet \<and>
   count (frameInfo scenario_instance) = Num 4 \<and>
   js_ge (count (frameInfo scenario_instance)) (Num 0)"
  using count_nonnegative [OF scenario_constructed] scenario_constructed
  by (simp add: scenario_container_def scenario_sheet_def scenario_instance_def
        isHorizontal_def DIRECTION_HORIZONTAL_def)

text \<open>
  Claim C7: construction sets the current frame to \<open>frameInfo.count\<close> when the reverse
  flag is true and to \<open>0\<close> otherwise.
\<close>

theorem constructor_initial_frame:
  assumes "constructor cont gr opt_interval opt_direction opt_reverse = Inr s"
  shows "frame s = (if opt_reverse = Some True then count (frameInfo s) else Num 0)"
  using constructor_frame [OF assms] constructor_reversed [OF assms]
  by (simp add: initialFrame_def)

text \<open>Claim C7 on the reversed 500 by 100 sheet: playback starts at frame 4.\<close>

theorem constructor_initial_frame_witness:
  "constructor scenario_container (Some scenario_sheet) None None (Some True) =
     Inr scenario_reversed \<and>
   count (frameInfo scenario_reversed) = Num 4 \<and> frame scenario_reversed = Num 4"
  using constructor_initial_frame [OF scenario_reversed_constructed]
    scenario_reversed_constructed
  by (simp add: scenario_reversed_def)

text \<open>
  Claim C8, as stated: when the sheet's extent is not an exact multiple of the
  container's, the ratio truncates and the count is an integer. A sheet 250 wide in a
  container 100 wide gives the count \<open>3/2\<close>, where truncation would give \<open>1\<close>.
\<close>

theorem count_fraction_counterexample:
  "\<not> offsetWidth scenario_container dvd offsetWidth ragged_sheet \<and>
   map_sum id (count \<circ> frameInfo)
     (constructor scenario_container (Some ragged_sheet) None None None) = Inr (Num (3 / 2)) \<and>
   \<not> js_is_integer (Num (3 / 2)) \<and>
   Num (3 / 2) \<noteq> Num (of_int \<lfloor>250 / 100 :: rat\<rfloor> - 1)"
  by (simp add: constructor_def getContentDirection_def getFrameCount_def isHorizontal_def
        initialFrame_def classList_add_def DIRECTION_AUTO_def DIRECTION_HORIZONTAL_def
        DIRECTION_VERTICAL_def INTERVAL_def js_of_nat_def js_minus_def
        scenario_container_def ragged_sheet_def floor_three_halves floor_five_halves Let_def)

text \<open>
  Claim C8, amended: when the sheet's extent along the sequence axis is not an exact
  multiple of the container's, the ratio is not truncated: the count is the quotient
  minus one as it is, and it is not an integer.
\<close>

theorem count_not_truncated:
  assumes "constructor cont (Some g) oi od orv = Inr s"
    and "if isHorizontal (direction s) then \<not> offsetWidth cont dvd offsetWidth g
         else \<not> offsetHeight cont dvd offsetHeight g"
  shows "count (frameInfo s) =
           (if isHorizontal (direction s)
            then js_minus (js_div (js_of_nat (offsetWidth g)) (js_of_nat (offsetWidth cont)))
                   (Num 1)
            else js_minus (js_div (js_of_nat (offsetHeight g)) (js_of_nat (offsetHeight cont)))
                   (Num 1)) \<and>
         \<not> js_is_integer (count (frameInfo s))"
  using assms by (simp add: constructor_count quotient_not_integer split: if_splits)

text \<open>Claim C8, amended, on the sheet of two frames and a half.\<close>

theorem count_not_truncated_witness:
  "constructor scenario_container (Some ragged_sheet) None None None = Inr ragged_instance \<and>
   isHorizontal (direction ragged_instance) \<and>
   \<not> offsetWidth scenario_container dvd offsetWidth ragged_sheet \<and>
   \<not> js_is_integer (count (frameInfo ragged_instance))"
  using count_not_truncated [OF ragged_constructed] ragged_constructed
  by (simp add: scenario_container_def ragged_sheet_def ragged_instance_def
        isHorizontal_def DIRECTION_HORIZONTAL_def js_of_nat_def js_minus_def
        floor_three_halves)

text \<open>
  Claim C9: \<open>start(f)\<close> does what \<open>start()\<close> does for every frame value \<open>f\<close>; the
  argument never seeds the current frame, which the call leaves as it was.
\<close>

theorem start_ignores_opt_frame:
  "start (Some f) hs = start None hs \<and> frame (snd (start (Some f) hs)) = frame (snd hs)"
  by (simp add: start_def Let_def)

text \<open>
  Claim C10: after the interval setter the instance is active, whether or not it was
  before: the setter stops, stores the new interval and starts, so a timer with the new
  period is scheduled under the instance's handle.
\<close>

theorem set_interval_activates:
  "active (snd (set_interval v hs)) \<and>
   interval (snd (set_interval v hs)) = v \<and>
   (\<exists>t. timer (snd (set_interval v hs)) = Some t \<and>
        (t, v) \<in> set (scheduled (fst (set_interval v hs))))"
  by (simp add: set_interval_def start_def stop_def setInterval_def Let_def)

end
